theory Spec2Isabelle
  imports Complex_Main
begin

section \<open>Python values used by the scripts\<close>

text \<open>
  A namespace is a tuple of strings, a stored value is a dict from strings to strings
  (\<open>{"prompt": ...}\<close>), a chat message is a dict with a role and a content, and the
  state handed to a prompt function is a dict whose entry \<open>'messages'\<close> holds the
  conversation. Dicts are association lists read with \<open>map_of\<close>; a subscript on a
  missing key raises \<open>KeyError\<close>.
\<close>

type_synonym namespace = "string list"

type_synonym pydict = "(string \<times> string) list"

record message =
  role :: string
  content :: string

type_synonym pystate = "(string \<times> message list) list"

datatype py_error = KeyError string | RuntimeError string

text \<open>\<open>str(e)\<close>: a \<open>KeyError\<close> prints the quoted key, any other exception its message.\<close>

fun str_of_error :: "py_error \<Rightarrow> string" where
  "str_of_error (KeyError k) = [CHR 0x27] @ k @ [CHR 0x27]"
| "str_of_error (RuntimeError m) = m"

section \<open>The record store\<close>

text \<open>
  Modelled from the spec: the record store (\<open>InMemoryStore\<close> of the langgraph library,
  which the scripts import and which is not part of the sources). A record carries its
  namespace, its key, its value and the embedding of the value; \<open>put\<close> inserts or
  overwrites the record of a (namespace, key) and recomputes the embedding with the
  embedding provider bound to the store; \<open>get\<close> is an exact lookup that yields
  \<open>None\<close> when the key is not in that namespace; \<open>search\<close>, called without a query as
  the scripts do, yields the records stored under exactly the namespace given, the most
  recently written first. Time stamps and similarity scores are left out.

  The world of a script holds the current store instance (its records, the dimension
  and the model name of its index, the embedding provider), the trace of the store
  operations performed so far, the lines printed so far, and the faults to come: the
  outcomes, in order, of the next statements that may raise (\<open>Some e\<close> when the
  statement raises \<open>e\<close>, \<open>None\<close> or the end of the list when it goes through).
\<close>

record item =
  item_namespace :: namespace
  item_key :: string
  item_value :: pydict
  item_embedding :: "real list option"

datatype store_op = Get namespace string | Put namespace string pydict | Search namespace

fun op_namespace :: "store_op \<Rightarrow> namespace" where
  "op_namespace (Get ns k) = ns"
| "op_namespace (Put ns k v) = ns"
| "op_namespace (Search ns) = ns"

fun op_key :: "store_op \<Rightarrow> string option" where
  "op_key (Get ns k) = Some k"
| "op_key (Put ns k v) = Some k"
| "op_key (Search ns) = None"

record world =
  items :: "item list"
  index_dims :: nat
  index_embed :: string
  provider :: "pydict \<Rightarrow> real list"
  oplog :: "store_op list"
  stdout :: "string list"
  faults :: "py_error option list"

definition at_key :: "namespace \<Rightarrow> string \<Rightarrow> item \<Rightarrow> bool" where
  "at_key ns k it = (item_namespace it = ns \<and> item_key it = k)"

definition store_get :: "namespace \<Rightarrow> string \<Rightarrow> world \<Rightarrow> (py_error + item option) \<times> world" where
  "store_get ns k w =
     (Inr (find (at_key ns k) (items w)), w\<lparr>oplog := oplog w @ [Get ns k]\<rparr>)"

definition store_put :: "namespace \<Rightarrow> string \<Rightarrow> pydict \<Rightarrow> world \<Rightarrow> world" where
  "store_put ns k v w =
     w\<lparr>items :=
         \<lparr>item_namespace = ns, item_key = k, item_value = v,
          item_embedding = Some (provider w v)\<rparr>
         # filter (\<lambda>it. \<not> at_key ns k it) (items w),
       oplog := oplog w @ [Put ns k v]\<rparr>"

text \<open>
  Modelled from the spec: the failure of an indexed put (\<open>InMemoryStore.put\<close> with the
  embedding provider unavailable, \<open>EmbeddingUnavailable\<close>). \<open>store_put\<close> above is the
  write of a put whose embedding was computed; the call itself raises and writes nothing
  when the next fault of the world says so.
\<close>

definition next_fault :: "world \<Rightarrow> py_error option \<times> world" where
  "next_fault w =
     (case faults w of
        [] \<Rightarrow> (None, w)
      | f # rest \<Rightarrow> (f, w\<lparr>faults := rest\<rparr>))"

definition store_put_raising ::
  "namespace \<Rightarrow> string \<Rightarrow> pydict \<Rightarrow> world \<Rightarrow> (py_error + unit) \<times> world" where
  "store_put_raising ns k v w =
     (case next_fault w of
        (Some e, w1) \<Rightarrow> (Inl e, w1)
      | (None, w1) \<Rightarrow> (Inr (), store_put ns k v w1))"

definition store_search :: "namespace \<Rightarrow> world \<Rightarrow> item list \<times> world" where
  "store_search ns w =
     (filter (\<lambda>it. item_namespace it = ns) (items w), w\<lparr>oplog := oplog w @ [Search ns]\<rparr>)"

section \<open>procedural_memory.py\<close>

subsection \<open>The prompt function\<close>

definition default_prompt :: string where
  "default_prompt = ''Write professional emails.''"

definition sys_prompt :: "string \<Rightarrow> message" where
  "sys_prompt instructions = \<lparr>role = ''system'', content = ''Instructions: '' @ instructions\<rparr>"

text \<open>\<open>[sys_prompt] + state['messages']\<close>: raises \<open>KeyError\<close> when the state has no messages.\<close>

definition with_messages :: "string \<Rightarrow> pystate \<Rightarrow> py_error + message list" where
  "with_messages instructions state =
     (case map_of state ''messages'' of
        None \<Rightarrow> Inl (KeyError ''messages'')
      | Some ms \<Rightarrow> Inr (sys_prompt instructions # ms))"

text \<open>
  The body of the \<open>try\<close> block of \<open>email_prompt\<close>, given the outcome of
  \<open>store.get(("instructions",), key="email_agent")\<close>: an exception raised by the
  store, or the item found, or \<open>None\<close>.
\<close>

definition email_prompt_try :: "py_error + item option \<Rightarrow> pystate \<Rightarrow> py_error + message list" where
  "email_prompt_try looked state =
     (case looked of
        Inl e \<Rightarrow> Inl e
      | Inr (Some it) \<Rightarrow>
          (case map_of (item_value it) ''prompt'' of
             None \<Rightarrow> Inl (KeyError ''prompt'')
           | Some instructions \<Rightarrow> with_messages instructions state)
      | Inr None \<Rightarrow> with_messages default_prompt state)"

text \<open>
  The \<open>try\<close> with its \<open>except Exception\<close>: any exception of the body is printed and
  the default prompt is built instead; an exception of the handler itself propagates.
\<close>

definition email_prompt_on ::
  "py_error + item option \<Rightarrow> pystate \<Rightarrow> world \<Rightarrow> (py_error + message list) \<times> world" where
  "email_prompt_on looked state w =
     (case email_prompt_try looked state of
        Inr prompt \<Rightarrow> (Inr prompt, w)
      | Inl e \<Rightarrow>
          (with_messages default_prompt state,
           w\<lparr>stdout := stdout w @ [''Error retrieving instructions: '' @ str_of_error e]\<rparr>))"

definition email_prompt :: "pystate \<Rightarrow> world \<Rightarrow> (py_error + message list) \<times> world" where
  "email_prompt state w =
     (case store_get [''instructions''] ''email_agent'' w of
        (looked, w1) \<Rightarrow> email_prompt_on looked state w1)"

subsection \<open>The email tool\<close>

definition draft_email :: "string \<Rightarrow> string \<Rightarrow> string \<Rightarrow> string" where
  "draft_email to subject body =
     ''Email drafted successfully to '' @ to @ '' with subject: '' @ subject"

subsection \<open>Setting up the agent\<close>

text \<open>
  \<open>os.getenv\<close> reads the environment, a dict of strings. The language model is only
  configured here; the store is a fresh instance indexed with 1536 dimensions, and the
  two memory tools are bound to the namespace \<open>("instructions", "email_agent")\<close>.
\<close>

definition os_getenv :: "pydict \<Rightarrow> string \<Rightarrow> string option" where
  "os_getenv environ name = map_of environ name"

record llm_config =
  model :: string
  temperature :: real
  api_key :: "string option"

definition ChatOpenAI :: "string \<Rightarrow> real \<Rightarrow> string option \<Rightarrow> llm_config" where
  "ChatOpenAI m t k = \<lparr>model = m, temperature = t, api_key = k\<rparr>"

datatype memory_tool = ManageMemoryTool namespace | SearchMemoryTool namespace

fun tool_namespace :: "memory_tool \<Rightarrow> namespace" where
  "tool_namespace (ManageMemoryTool ns) = ns"
| "tool_namespace (SearchMemoryTool ns) = ns"

text \<open>\<open>InMemoryStore(index={"dims": d, "embed": e})\<close>: a new, empty store instance.\<close>

definition InMemoryStore :: "nat \<Rightarrow> string \<Rightarrow> world \<Rightarrow> world" where
  "InMemoryStore d e w = w\<lparr>items := [], index_dims := d, index_embed := e\<rparr>"

definition setup_procedural_agent ::
  "pydict \<Rightarrow> world \<Rightarrow> (llm_config \<times> memory_tool list) \<times> world" where
  "setup_procedural_agent environ w =
     (let llm = ChatOpenAI ''gpt-4o-mini'' (7 / 10) (os_getenv environ ''OPENAI_API_KEY'');
          w1 = InMemoryStore 1536 ''openai:text-embedding-3-small'' w;
          namespace = [''instructions'', ''email_agent''];
          procedural_tools = [ManageMemoryTool namespace, SearchMemoryTool namespace]
      in ((llm, procedural_tools), w1))"

subsection \<open>The optimisation step of demonstrate_procedural_memory\<close>

definition feedback_text :: string where
  "feedback_text =
     ''Always sign emails 'Best regards, William' and offer video call options for meetings''"

definition conversation_messages :: "message list" where
  "conversation_messages =
     [\<lparr>role = ''user'',
       content = ''Draft email to john@company.com about meeting tomorrow at 2pm''\<rparr>,
      \<lparr>role = ''assistant'',
       content = ''Subject: Meeting Tomorrow at 2pm\<newline>\<newline>Hi John,\<newline>\<newline>I'd like to schedule a meeting tomorrow at 2pm to discuss the project updates.\<newline>\<newline>Best regards,\<newline>William''\<rparr>,
      \<lparr>role = ''user'',
       content = ''Always sign emails 'Best regards, William' and offer video call options for meetings''\<rparr>]"

text \<open>The text both fallbacks append to the current prompt (lines 141 and 157).\<close>

definition fallback_suffix :: string where
  "fallback_suffix =
     '' Always sign 'Best regards, William' and offer Zoom/Google Meet options for meetings.''"

text \<open>
  What \<open>optimizer.invoke\<close> may return: an object with an attribute \<open>content\<close>, a
  dict, or anything else (a plain string, say). The optimiser itself is an injected
  capability: a function of the prompt and the trajectories that returns such an object
  or raises.
\<close>

datatype pyobj = ObjWithContent string | DictObj pydict | OtherObj string

type_synonym optimizer = "string \<Rightarrow> (message list \<times> string) list \<Rightarrow> py_error + pyobj"

definition extract_optimized :: "string \<Rightarrow> pyobj \<Rightarrow> string" where
  "extract_optimized current_prompt optimized_result =
     (case optimized_result of
        ObjWithContent c \<Rightarrow> c
      | DictObj d \<Rightarrow>
          (case map_of d ''content'' of
             Some c \<Rightarrow> c
           | None \<Rightarrow> current_prompt @ fallback_suffix)
      | OtherObj x \<Rightarrow> current_prompt @ fallback_suffix)"

text \<open>
  Statements in sequence, and \<open>try\<close> with \<open>except Exception as e\<close>: an exception ends
  the sequence and is handed to the handler of the enclosing \<open>try\<close>, if there is one.
  \<open>print\<close> may raise as well (a closed or ill-encoded console), as the faults say.
\<close>

definition py_return :: "'a \<Rightarrow> world \<Rightarrow> (py_error + 'a) \<times> world" where
  "py_return x w = (Inr x, w)"

definition py_bind ::
  "(world \<Rightarrow> (py_error + 'a) \<times> world) \<Rightarrow> ('a \<Rightarrow> world \<Rightarrow> (py_error + 'b) \<times> world)
   \<Rightarrow> world \<Rightarrow> (py_error + 'b) \<times> world" where
  "py_bind m f w = (case m w of (Inl e, w1) \<Rightarrow> (Inl e, w1) | (Inr x, w1) \<Rightarrow> f x w1)"

definition py_try ::
  "(world \<Rightarrow> (py_error + 'a) \<times> world) \<Rightarrow> (py_error \<Rightarrow> world \<Rightarrow> (py_error + 'a) \<times> world)
   \<Rightarrow> world \<Rightarrow> (py_error + 'a) \<times> world" where
  "py_try m handler w = (case m w of (Inl e, w1) \<Rightarrow> handler e w1 | (Inr x, w1) \<Rightarrow> (Inr x, w1))"

definition py_print :: "string \<Rightarrow> world \<Rightarrow> (py_error + unit) \<times> world" where
  "py_print line w =
     (case next_fault w of
        (Some e, w1) \<Rightarrow> (Inl e, w1)
      | (None, w1) \<Rightarrow> (Inr (), w1\<lparr>stdout := stdout w1 @ [line]\<rparr>))"

definition warning_sign :: string where
  "warning_sign = [CHR 0xE2, CHR 0x9A, CHR 0xA0, CHR 0xEF, CHR 0xB8, CHR 0x8F]"

definition check_mark :: string where
  "check_mark = [CHR 0xE2, CHR 0x9C, CHR 0x85]"

definition current_prompt_of :: "item option \<Rightarrow> py_error + string" where
  "current_prompt_of current_item =
     (case current_item of
        Some it \<Rightarrow>
          (case map_of (item_value it) ''prompt'' of
             None \<Rightarrow> Inl (KeyError ''prompt'')
           | Some p \<Rightarrow> Inr p)
      | None \<Rightarrow> Inr ''Write professional emails.'')"

text \<open>
  The \<open>try\<close> block of lines 128 to 152: the call of the optimiser, the choice of the
  optimised prompt, two prints, the put that commits it, and a last print. Each of them
  but the choice may raise.
\<close>

definition optimize_try :: "optimizer \<Rightarrow> string \<Rightarrow> string \<Rightarrow> world \<Rightarrow> (py_error + string) \<times> world" where
  "optimize_try opt feedback current_prompt =
     py_bind (\<lambda>w. (opt current_prompt [(conversation_messages, feedback)], w))
       (\<lambda>optimized_result.
     (let optimized_prompt = extract_optimized current_prompt optimized_result in
     py_bind (py_print (''   Original prompt: '' @ current_prompt)) (\<lambda>u1.
     py_bind (py_print (''   Optimized prompt: '' @ optimized_prompt)) (\<lambda>u2.
     py_bind (store_put_raising [''instructions''] ''email_agent''
                [(''prompt'', optimized_prompt)]) (\<lambda>u3.
     py_bind (py_print (''   '' @ check_mark @ '' Updated instructions stored!'')) (\<lambda>u4.
     py_return optimized_prompt))))))"

text \<open>
  The \<open>except\<close> block of lines 154 to 163: a print of the error, the put of the
  fallback, and a last print. An exception raised here leaves the step.
\<close>

definition optimize_except :: "string \<Rightarrow> py_error \<Rightarrow> world \<Rightarrow> (py_error + string) \<times> world" where
  "optimize_except current_prompt e =
     py_bind (py_print (''   '' @ warning_sign @ '' Optimization failed, using fallback: ''
                        @ str_of_error e)) (\<lambda>u1.
     (let optimized_prompt = current_prompt @ fallback_suffix in
     py_bind (store_put_raising [''instructions''] ''email_agent''
                [(''prompt'', optimized_prompt)]) (\<lambda>u2.
     py_bind (py_print (''   '' @ check_mark @ '' Fallback instructions stored!'')) (\<lambda>u3.
     py_return optimized_prompt))))"

text \<open>
  Lines 114 to 163. The feedback, a local bound to \<open>feedback_text\<close> at line 110, is an
  argument here, so that the step can be run on other feedback texts. The current prompt
  is read outside the \<open>try\<close>: a stored value without \<open>"prompt"\<close> raises to the
  caller.
\<close>

definition optimize_instructions ::
  "optimizer \<Rightarrow> string \<Rightarrow> world \<Rightarrow> (py_error + string) \<times> world" where
  "optimize_instructions opt feedback =
     py_bind (store_get [''instructions''] ''email_agent'') (\<lambda>current_item.
     py_bind (\<lambda>w. (current_prompt_of current_item, w)) (\<lambda>current_prompt.
     py_try (optimize_try opt feedback current_prompt) (optimize_except current_prompt)))"

subsection \<open>The demonstrations\<close>

text \<open>
  A run of the agent (\<open>email_agent.invoke\<close>) is the language model's work; what it
  executes of this file is the prompt function, called on the state of the run. One call
  per run is modelled, and the model's answer, which the script only prints, is not.
  The puts of lines 80, 203 and 226 stand outside every \<open>try\<close> and are taken to go
  through, and of the progress lines only those inside the \<open>try\<close> of the optimisation
  step are modelled, where a print that raises changes what is committed.
\<close>

definition user_says :: "string \<Rightarrow> pystate" where
  "user_says text = [(''messages'', [\<lparr>role = ''user'', content = text\<rparr>])]"

definition agent_invoke :: "pystate \<Rightarrow> world \<Rightarrow> (py_error + message list) \<times> world" where
  "agent_invoke state w = email_prompt state w"

text \<open>
  Lines 188 to 194: the listing at the end searches the namespace \<open>("instructions",)\<close>;
  the records it prints are the result here.
\<close>

definition show_stored :: "namespace \<Rightarrow> world \<Rightarrow> (py_error + item list) \<times> world" where
  "show_stored ns w = (case store_search ns w of (found, w1) \<Rightarrow> (Inr found, w1))"

definition demonstrate_procedural_memory ::
  "optimizer \<Rightarrow> pydict \<Rightarrow> world \<Rightarrow> (py_error + item list) \<times> world" where
  "demonstrate_procedural_memory opt environ w =
     (case setup_procedural_agent environ w of
        (setup, w0) \<Rightarrow>
     (let w1 = store_put [''instructions''] ''email_agent''
                 [(''prompt'', ''Write professional emails.'')] w0
      in case agent_invoke
             (user_says ''Draft email to john@company.com about meeting tomorrow at 2pm'') w1 of
        (Inl e, w2) \<Rightarrow> (Inl e, w2)
      | (Inr response1, w2) \<Rightarrow>
     (case optimize_instructions opt feedback_text w2 of
        (Inl e, w3) \<Rightarrow> (Inl e, w3)
      | (Inr optimized_prompt, w3) \<Rightarrow>
     (case agent_invoke
             (user_says ''Draft email to sarah@company.com about weekly team sync'') w3 of
        (Inl e, w4) \<Rightarrow> (Inl e, w4)
      | (Inr response2, w4) \<Rightarrow>
     (case agent_invoke
             (user_says ''Send a quick email to mike@company.com about the project deadline'') w4 of
        (Inl e, w5) \<Rightarrow> (Inl e, w5)
      | (Inr response3, w5) \<Rightarrow> show_stored [''instructions''] w5)))))"

definition feedback_iterations :: "string list" where
  "feedback_iterations =
     [''Always use formal language'',
      ''Include meeting agenda in meeting emails'',
      ''Use bullet points for action items'',
      ''Always confirm receipt of important documents'']"

text \<open>The loop of lines 219 to 232: each feedback is appended to the prompt, which is stored.\<close>

fun evolve :: "string list \<Rightarrow> string \<Rightarrow> world \<Rightarrow> string \<times> world" where
  "evolve [] current_prompt w = (current_prompt, w)"
| "evolve (feedback # rest) current_prompt w =
     (let current_prompt' = current_prompt @ '' '' @ feedback
      in evolve rest current_prompt'
           (store_put [''instructions''] ''email_agent'' [(''prompt'', current_prompt')] w))"

definition demonstrate_behavior_evolution :: "pydict \<Rightarrow> world \<Rightarrow> string \<times> world" where
  "demonstrate_behavior_evolution environ w =
     (case setup_procedural_agent environ w of
        (setup, w0) \<Rightarrow>
          evolve feedback_iterations ''Write professional emails.''
            (store_put [''instructions''] ''email_agent''
               [(''prompt'', ''Write professional emails.'')] w0))"

section \<open>The stores of the other scripts\<close>

text \<open>
  \<open>setup_agent\<close> of hello.py, \<open>setup_semantic_agent\<close> of semantic_memory.py and
  \<open>setup_episodic_agent\<close> of episodic_memory.py: the same model and the same index, and
  memory tools bound to the namespace of the script.
\<close>

definition setup_agent :: "pydict \<Rightarrow> world \<Rightarrow> (llm_config \<times> memory_tool list) \<times> world" where
  "setup_agent environ w =
     (let llm = ChatOpenAI ''gpt-4o-mini'' (7 / 10) (os_getenv environ ''OPENAI_API_KEY'');
          w1 = InMemoryStore 1536 ''openai:text-embedding-3-small'' w;
          memory_tools = [ManageMemoryTool [''memories''], SearchMemoryTool [''memories'']]
      in ((llm, memory_tools), w1))"

definition setup_semantic_agent ::
  "pydict \<Rightarrow> world \<Rightarrow> (llm_config \<times> memory_tool list) \<times> world" where
  "setup_semantic_agent environ w =
     (let llm = ChatOpenAI ''gpt-4o-mini'' (7 / 10) (os_getenv environ ''OPENAI_API_KEY'');
          w1 = InMemoryStore 1536 ''openai:text-embedding-3-small'' w;
          namespace = [''user_facts'', ''user123''];
          semantic_tools = [ManageMemoryTool namespace, SearchMemoryTool namespace]
      in ((llm, semantic_tools), w1))"

definition setup_episodic_agent ::
  "pydict \<Rightarrow> world \<Rightarrow> (llm_config \<times> memory_tool list) \<times> world" where
  "setup_episodic_agent environ w =
     (let llm = ChatOpenAI ''gpt-4o-mini'' (7 / 10) (os_getenv environ ''OPENAI_API_KEY'');
          w1 = InMemoryStore 1536 ''openai:text-embedding-3-small'' w;
          namespace = [''episodes'', ''user123''];
          episodic_tools = [ManageMemoryTool namespace, SearchMemoryTool namespace]
      in ((llm, episodic_tools), w1))"

section \<open>The entry point of every script\<close>

text \<open>
  \<open>load_dotenv()\<close> adds the variables of the \<open>.env\<close> file that the environment does
  not set already. Then the block under \<open>__main__\<close>: without a non-empty
  \<open>OPENAI_API_KEY\<close> it prints three lines and exits with status 1; otherwise it runs the
  demonstrations of the script and prints any exception they raise. The four scripts
  differ in the demonstrations only, which are the argument \<open>body\<close>.
\<close>

datatype exit_status = Exited nat | Returned

definition load_dotenv :: "pydict \<Rightarrow> pydict \<Rightarrow> pydict" where
  "load_dotenv dotenv environ = environ @ dotenv"

definition cross_mark :: string where
  "cross_mark = [CHR 0xE2, CHR 0x9D, CHR 0x8C]"

definition falsy :: "string option \<Rightarrow> bool" where
  "falsy x = (case x of None \<Rightarrow> True | Some s \<Rightarrow> s = [])"

definition script_main ::
  "(pydict \<Rightarrow> world \<Rightarrow> (py_error + unit) \<times> world) \<Rightarrow> pydict \<Rightarrow> pydict \<Rightarrow> world
   \<Rightarrow> exit_status \<times> world" where
  "script_main body dotenv environ0 w =
     (let environ = load_dotenv dotenv environ0 in
      if falsy (os_getenv environ ''OPENAI_API_KEY'') then
        (Exited 1,
         w\<lparr>stdout := stdout w @
            [cross_mark @ '' Error: OPENAI_API_KEY environment variable not set!'',
             ''Please set your OpenAI API key:'',
             ''export OPENAI_API_KEY='your-api-key-here'' @ [CHR 0x27]]\<rparr>)
      else
        (case body environ w of
           (Inr u, w1) \<Rightarrow> (Returned, w1)
         | (Inl e, w1) \<Rightarrow>
             (Returned,
              w1\<lparr>stdout := stdout w1 @
                 [cross_mark @ '' Error occurred: '' @ str_of_error e,
                  ''Make sure you have a valid OpenAI API key and sufficient credits.'']\<rparr>)))"

definition procedural_body :: "optimizer \<Rightarrow> pydict \<Rightarrow> world \<Rightarrow> (py_error + unit) \<times> world" where
  "procedural_body opt environ w =
     (case demonstrate_procedural_memory opt environ w of
        (Inl e, w1) \<Rightarrow> (Inl e, w1)
      | (Inr shown, w1) \<Rightarrow>
          (case demonstrate_behavior_evolution environ w1 of
             (final_prompt, w2) \<Rightarrow> (Inr (), w2)))"

definition procedural_main :: "optimizer \<Rightarrow> pydict \<Rightarrow> pydict \<Rightarrow> world \<Rightarrow> exit_status \<times> world" where
  "procedural_main opt dotenv environ0 w = script_main (procedural_body opt) dotenv environ0 w"

section \<open>Notions used by the properties\<close>

text \<open>
  A store operation is on the instruction record when its namespace is
  \<open>("instructions",)\<close> and its key, if it has one, is \<open>"email_agent"\<close>.
\<close>

definition on_instructions :: "store_op \<Rightarrow> bool" where
  "on_instructions x =
     (op_namespace x = [''instructions''] \<and> (op_key x = None \<or> op_key x = Some ''email_agent''))"

text \<open>A step grows the trace by operations on the instruction record only.\<close>

definition grows :: "(world \<Rightarrow> 'a \<times> world) \<Rightarrow> bool" where
  "grows m = (\<forall>w. \<exists>ops. oplog (snd (m w)) = oplog w @ ops \<and> list_all on_instructions ops)"

abbreviation instruction_stored :: "string \<Rightarrow> world \<Rightarrow> world" where
  "instruction_stored p w \<equiv> store_put [''instructions''] ''email_agent'' [(''prompt'', p)] w"

text \<open>A sequence of puts into a store, and the dimensions of the embeddings it then holds.\<close>

fun store_puts :: "(namespace \<times> string \<times> pydict) list \<Rightarrow> world \<Rightarrow> world" where
  "store_puts [] w = w"
| "store_puts ((ns, k, v) # rest) w = store_puts rest (store_put ns k v w)"

definition embedding_dims :: "world \<Rightarrow> nat option list" where
  "embedding_dims w = map (\<lambda>it. map_option length (item_embedding it)) (items w)"

text \<open>
  Concrete inputs: an embedding provider that returns the zero vector of 1536
  dimensions, a world whose store is empty, and an optimiser whose call always raises.
\<close>

definition zero_provider :: "pydict \<Rightarrow> real list" where
  "zero_provider v = replicate 1536 0"

definition fresh_world :: world where
  "fresh_world =
     \<lparr>items = [], index_dims = 1536, index_embed = ''openai:text-embedding-3-small'',
      provider = zero_provider, oplog = [], stdout = [], faults = []\<rparr>"

definition failing_optimizer :: optimizer where
  "failing_optimizer p ts = Inl (RuntimeError ''optimizer unavailable'')"

text \<open>
  An optimiser that returns a prompt, and two worlds in which the instruction
  \<open>"Write professional emails."\<close> is stored and the embedding provider is unavailable:
  for the put inside the \<open>try\<close> of the optimisation step (the third statement that may
  raise, after two prints), and for the put of the handler as well (the fifth, after one
  more print).
\<close>

definition returning_optimizer :: optimizer where
  "returning_optimizer p ts = Inr (ObjWithContent ''Write formal emails.'')"

definition embedding_unavailable :: py_error where
  "embedding_unavailable = RuntimeError ''EmbeddingUnavailable''"

definition put_fails_once_world :: world where
  "put_fails_once_world =
     (instruction_stored ''Write professional emails.'' fresh_world)
       \<lparr>faults := [None, None, Some embedding_unavailable]\<rparr>"

definition unavailable_world :: world where
  "unavailable_world =
     (instruction_stored ''Write professional emails.'' fresh_world)
       \<lparr>faults := [None, None, Some embedding_unavailable,
                   None, Some embedding_unavailable]\<rparr>"

section \<open>Facts about the store and the steps of the scripts\<close>

lemma find_put_same:
  "find (at_key ns k) (items (store_put ns k v w)) =
     Some \<lparr>item_namespace = ns, item_key = k, item_value = v,
           item_embedding = Some (provider w v)\<rparr>"
  by (simp add: store_put_def at_key_def)

lemma filter_put_same:
  "filter (at_key ns k) (items (store_put ns k v w)) =
     [\<lparr>item_namespace = ns, item_key = k, item_value = v,
       item_embedding = Some (provider w v)\<rparr>]"
  by (simp add: store_put_def at_key_def)

lemma oplog_put: "oplog (store_put ns k v w) = oplog w @ [Put ns k v]"
  by (simp add: store_put_def)

lemma find_other_namespace:
  "N1 \<noteq> N2 \<Longrightarrow>
     find (at_key N2 k') (filter (\<lambda>it. \<not> at_key N1 k it) xs) = find (at_key N2 k') xs"
  by (induction xs) (auto simp add: at_key_def)

lemma on_instructions_ops:
  "on_instructions (Put [''instructions''] ''email_agent'' v)"
  "on_instructions (Get [''instructions''] ''email_agent'')"
  "on_instructions (Search [''instructions''])"
  by (simp_all add: on_instructions_def)

lemma email_prompt_oplog:
  "oplog (snd (email_prompt state w)) = oplog w @ [Get [''instructions''] ''email_agent'']"
  by (simp add: email_prompt_def store_get_def email_prompt_on_def split: sum.splits)

lemma email_prompt_items: "items (snd (email_prompt state w)) = items w"
  by (simp add: email_prompt_def store_get_def email_prompt_on_def split: sum.splits)

lemma email_prompt_user_says: "\<exists>ms. fst (email_prompt (user_says text) w) = Inr ms"
  by (simp add: email_prompt_def store_get_def email_prompt_on_def email_prompt_try_def
      with_messages_def user_says_def split: sum.splits option.splits)

lemma setup_procedural_agent_world:
  "snd (setup_procedural_agent environ w)
     = w\<lparr>items := [], index_dims := 1536, index_embed := ''openai:text-embedding-3-small''\<rparr>"
  by (simp add: setup_procedural_agent_def InMemoryStore_def Let_def)

text \<open>Faults are consumed by the statements that may raise, and by nothing else.\<close>

lemma faults_put: "faults (store_put ns k v w) = faults w"
  by (simp add: store_put_def)

lemma faults_email_prompt: "faults (snd (email_prompt state w)) = faults w"
  by (simp add: email_prompt_def store_get_def email_prompt_on_def split: sum.splits)

lemma next_fault_none: "faults w = [] \<Longrightarrow> next_fault w = (None, w)"
  by (simp add: next_fault_def)

lemma py_print_ok:
  "faults w = [] \<Longrightarrow> py_print line w = (Inr (), w\<lparr>stdout := stdout w @ [line]\<rparr>)"
  by (simp add: py_print_def next_fault_none)

lemma store_put_raising_ok:
  "faults w = [] \<Longrightarrow> store_put_raising ns k v w = (Inr (), store_put ns k v w)"
  by (simp add: store_put_raising_def next_fault_none)

text \<open>
  One run of the optimisation step in which no statement raises but, possibly, the call
  of the optimiser, on a store whose current prompt is \<open>p\<close>: it reads once, writes once,
  and what it writes is decided by the outcome of the optimiser.
\<close>

lemma optimize_instructions_run:
  assumes "current_prompt_of (find (at_key [''instructions''] ''email_agent'') (items w)) = Inr p"
    and "faults w = []"
  shows "\<exists>q. fst (optimize_instructions opt feedback w) = Inr q
       \<and> oplog (snd (optimize_instructions opt feedback w))
           = oplog w @ [Get [''instructions''] ''email_agent'',
                        Put [''instructions''] ''email_agent'' [(''prompt'', q)]]
       \<and> map item_value (filter (at_key [''instructions''] ''email_agent'')
            (items (snd (optimize_instructions opt feedback w)))) = [[(''prompt'', q)]]
       \<and> (case opt p [(conversation_messages, feedback)] of
            Inl e \<Rightarrow> q = p @ fallback_suffix
          | Inr r \<Rightarrow> q = extract_optimized p r)
       \<and> faults (snd (optimize_instructions opt feedback w)) = []"
proof (cases "opt p [(conversation_messages, feedback)]")
  case (Inl err)
  then show ?thesis
    using assms
    by (simp add: optimize_instructions_def optimize_try_def optimize_except_def
        py_bind_def py_try_def py_return_def store_get_def py_print_ok store_put_raising_ok
        faults_put filter_put_same oplog_put Let_def)
next
  case (Inr res)
  then show ?thesis
    using assms
    by (simp add: optimize_instructions_def optimize_try_def optimize_except_def
        py_bind_def py_try_def py_return_def store_get_def py_print_ok store_put_raising_ok
        faults_put filter_put_same oplog_put Let_def)
qed

text \<open>
  Whatever raises, a step only adds operations on the instruction record to the trace.
\<close>

lemma growsD:
  "grows m \<Longrightarrow> \<exists>ops. oplog (snd (m w)) = oplog w @ ops \<and> list_all on_instructions ops"
  by (simp add: grows_def)

lemma grows_pure: "grows (\<lambda>w. (x, w))"
  by (simp add: grows_def)

lemma grows_return: "grows (py_return x)"
  by (simp add: grows_def py_return_def)

lemma grows_bind:
  assumes "grows m" and "\<And>x. grows (f x)"
  shows "grows (py_bind m f)"
  unfolding grows_def
proof
  fix w
  obtain ops1 where 1: "oplog (snd (m w)) = oplog w @ ops1" "list_all on_instructions ops1"
    using growsD [OF assms(1)] by blast
  show "\<exists>ops. oplog (snd (py_bind m f w)) = oplog w @ ops \<and> list_all on_instructions ops"
  proof (cases "fst (m w)")
    case (Inl e)
    then have "py_bind m f w = (Inl e, snd (m w))"
      by (simp add: py_bind_def case_prod_unfold)
    then show ?thesis using 1 by simp
  next
    case (Inr x)
    then have r: "py_bind m f w = f x (snd (m w))"
      by (simp add: py_bind_def case_prod_unfold)
    obtain ops2 where "oplog (snd (f x (snd (m w)))) = oplog (snd (m w)) @ ops2"
      "list_all on_instructions ops2"
      using growsD [OF assms(2)] by blast
    then show ?thesis using 1 r by simp
  qed
qed

lemma grows_try:
  assumes "grows m" and "\<And>e. grows (h e)"
  shows "grows (py_try m h)"
  unfolding grows_def
proof
  fix w
  obtain ops1 where 1: "oplog (snd (m w)) = oplog w @ ops1" "list_all on_instructions ops1"
    using growsD [OF assms(1)] by blast
  show "\<exists>ops. oplog (snd (py_try m h w)) = oplog w @ ops \<and> list_all on_instructions ops"
  proof (cases "fst (m w)")
    case (Inr x)
    then have "py_try m h w = (Inr x, snd (m w))"
      by (simp add: py_try_def case_prod_unfold)
    then show ?thesis using 1 by simp
  next
    case (Inl e)
    then have r: "py_try m h w = h e (snd (m w))"
      by (simp add: py_try_def case_prod_unfold)
    obtain ops2 where "oplog (snd (h e (snd (m w)))) = oplog (snd (m w)) @ ops2"
      "list_all on_instructions ops2"
      using growsD [OF assms(2)] by blast
    then show ?thesis using 1 r by simp
  qed
qed

lemma grows_print: "grows (py_print line)"
  by (simp add: grows_def py_print_def next_fault_def split: list.splits option.splits)

lemma grows_put: "grows (store_put_raising [''instructions''] ''email_agent'' v)"
  by (simp add: grows_def store_put_raising_def next_fault_def oplog_put on_instructions_ops
      split: list.splits option.splits)

lemma grows_get: "grows (store_get [''instructions''] ''email_agent'')"
  by (simp add: grows_def store_get_def on_instructions_ops)

lemma grows_email_prompt: "grows (email_prompt state)"
  by (simp add: grows_def email_prompt_oplog on_instructions_ops)

lemma grows_show_stored: "grows (show_stored [''instructions''])"
  by (simp add: grows_def show_stored_def store_search_def on_instructions_ops)

lemma grows_optimize_instructions: "grows (optimize_instructions opt feedback)"
  unfolding optimize_instructions_def optimize_try_def optimize_except_def Let_def
  by (intro grows_bind grows_try grows_get grows_pure grows_print grows_put grows_return)

lemma demonstrate_procedural_memory_steps:
  "demonstrate_procedural_memory opt environ w =
     py_bind (email_prompt
                (user_says ''Draft email to john@company.com about meeting tomorrow at 2pm''))
       (\<lambda>r1.
     py_bind (optimize_instructions opt feedback_text) (\<lambda>q.
     py_bind (email_prompt
                (user_says ''Draft email to sarah@company.com about weekly team sync''))
       (\<lambda>r2.
     py_bind (email_prompt
                (user_says ''Send a quick email to mike@company.com about the project deadline''))
       (\<lambda>r3. show_stored [''instructions'']))))
       (instruction_stored ''Write professional emails.''
          (snd (setup_procedural_agent environ w)))"
  by (simp add: demonstrate_procedural_memory_def agent_invoke_def py_bind_def Let_def
      case_prod_unfold split: sum.splits)

lemma demonstrate_procedural_memory_grows:
  "\<exists>ops. oplog (snd (demonstrate_procedural_memory opt environ w)) = oplog w @ ops
          \<and> list_all on_instructions ops"
proof -
  let ?w1 = "instruction_stored ''Write professional emails.''
          (snd (setup_procedural_agent environ w))"
  have "grows (py_bind (email_prompt
                (user_says ''Draft email to john@company.com about meeting tomorrow at 2pm''))
       (\<lambda>r1.
     py_bind (optimize_instructions opt feedback_text) (\<lambda>q.
     py_bind (email_prompt
                (user_says ''Draft email to sarah@company.com about weekly team sync''))
       (\<lambda>r2.
     py_bind (email_prompt
                (user_says ''Send a quick email to mike@company.com about the project deadline''))
       (\<lambda>r3. show_stored [''instructions''])))))"
    by (intro grows_bind grows_email_prompt grows_optimize_instructions grows_show_stored)
  then obtain ops where
    "oplog (snd (demonstrate_procedural_memory opt environ w)) = oplog ?w1 @ ops"
    and "list_all on_instructions ops"
    unfolding demonstrate_procedural_memory_steps using growsD by blast
  then show ?thesis
    by (simp add: oplog_put setup_procedural_agent_world on_instructions_ops)
qed

text \<open>The store operations of \<open>demonstrate_procedural_memory\<close>, in order.\<close>

lemma demonstrate_procedural_memory_trace:
  assumes "faults w = []"
  shows "\<exists>q found. fst (demonstrate_procedural_memory opt environ w) = Inr found
     \<and> oplog (snd (demonstrate_procedural_memory opt environ w))
       = oplog w @
         [Put [''instructions''] ''email_agent'' [(''prompt'', ''Write professional emails.'')],
          Get [''instructions''] ''email_agent'',
          Get [''instructions''] ''email_agent'',
          Put [''instructions''] ''email_agent'' [(''prompt'', q)],
          Get [''instructions''] ''email_agent'',
          Get [''instructions''] ''email_agent'',
          Search [''instructions'']]"
proof -
  define w0 where "w0 = snd (setup_procedural_agent environ w)"
  define w1 where "w1 = instruction_stored ''Write professional emails.'' w0"
  define s1 where
    "s1 = user_says ''Draft email to john@company.com about meeting tomorrow at 2pm''"
  define s2 where "s2 = user_says ''Draft email to sarah@company.com about weekly team sync''"
  define s3 where
    "s3 = user_says ''Send a quick email to mike@company.com about the project deadline''"
  define w2 where "w2 = snd (email_prompt s1 w1)"
  define w3 where "w3 = snd (optimize_instructions opt feedback_text w2)"
  define w4 where "w4 = snd (email_prompt s2 w3)"
  define w5 where "w5 = snd (email_prompt s3 w4)"
  have l0: "oplog w0 = oplog w"
    by (simp add: w0_def setup_procedural_agent_world)
  have f2: "faults w2 = []"
    using assms
    by (simp add: w2_def faults_email_prompt w1_def faults_put w0_def
        setup_procedural_agent_world)
  have l1: "oplog w1 = oplog w @
      [Put [''instructions''] ''email_agent'' [(''prompt'', ''Write professional emails.'')]]"
    by (simp add: w1_def oplog_put l0)
  obtain m1 where m1: "fst (email_prompt s1 w1) = Inr m1"
    using email_prompt_user_says s1_def by blast
  have cur: "current_prompt_of (find (at_key [''instructions''] ''email_agent'') (items w2))
               = Inr ''Write professional emails.''"
    by (simp add: w2_def email_prompt_items w1_def find_put_same current_prompt_of_def)
  obtain q where q: "fst (optimize_instructions opt feedback_text w2) = Inr q"
    and l3: "oplog w3 = oplog w2 @ [Get [''instructions''] ''email_agent'',
                        Put [''instructions''] ''email_agent'' [(''prompt'', q)]]"
    using optimize_instructions_run [OF cur f2, of opt feedback_text] w3_def by blast
  obtain m2 where m2: "fst (email_prompt s2 w3) = Inr m2"
    using email_prompt_user_says s2_def by blast
  obtain m3 where m3: "fst (email_prompt s3 w4) = Inr m3"
    using email_prompt_user_says s3_def by blast
  have run: "demonstrate_procedural_memory opt environ w = show_stored [''instructions''] w5"
    using m1 q m2 m3
    unfolding w5_def w4_def w3_def w2_def w1_def w0_def s1_def s2_def s3_def
    by (simp add: demonstrate_procedural_memory_def agent_invoke_def Let_def case_prod_unfold)
  have l5: "oplog w5 = oplog w @
         [Put [''instructions''] ''email_agent'' [(''prompt'', ''Write professional emails.'')],
          Get [''instructions''] ''email_agent'',
          Get [''instructions''] ''email_agent'',
          Put [''instructions''] ''email_agent'' [(''prompt'', q)],
          Get [''instructions''] ''email_agent'',
          Get [''instructions''] ''email_agent'']"
    by (simp add: w5_def w4_def email_prompt_oplog l3) (simp add: w2_def email_prompt_oplog l1)
  show ?thesis
    unfolding run using l5 by (simp add: show_stored_def store_search_def)
qed

text \<open>The loop of \<open>demonstrate_behavior_evolution\<close>, for any list of feedback texts.\<close>

lemma evolve_oplog:
  "\<exists>ops. oplog (snd (evolve fbs cur w)) = oplog w @ ops \<and> list_all on_instructions ops"
proof (induction fbs arbitrary: cur w)
  case Nil
  show ?case by simp
next
  case (Cons f fbs)
  obtain ops where
    "oplog (snd (evolve fbs (cur @ '' '' @ f) (instruction_stored (cur @ '' '' @ f) w)))
       = oplog (instruction_stored (cur @ '' '' @ f) w) @ ops"
    and "list_all on_instructions ops"
    using Cons.IH by blast
  then show ?case
    by (simp add: Let_def oplog_put on_instructions_ops)
qed

lemma evolve_stored:
  "map item_value (filter (at_key [''instructions''] ''email_agent'')
      (items (snd (evolve fbs cur (instruction_stored cur w)))))
     = [[(''prompt'', fst (evolve fbs cur (instruction_stored cur w)))]]"
proof (induction fbs arbitrary: cur w)
  case Nil
  show ?case by (simp add: filter_put_same)
next
  case (Cons f fbs)
  show ?case
    using Cons.IH [of "cur @ '' '' @ f" "instruction_stored cur w"]
    by (simp add: Let_def)
qed

text \<open>Puts keep the dimension of the index and of every embedding held.\<close>

lemma store_puts_dims:
  "\<forall>v. length (provider w v) = d \<Longrightarrow> list_all (\<lambda>x. x = Some d) (embedding_dims w) \<Longrightarrow>
     list_all (\<lambda>x. x = Some d) (embedding_dims (store_puts ps w))
     \<and> index_dims (store_puts ps w) = index_dims w"
proof (induction ps arbitrary: w)
  case Nil
  then show ?case by simp
next
  case (Cons p ps)
  obtain ns k v where p: "p = (ns, k, v)" by (cases p)
  have "\<forall>u. length (provider (store_put ns k v w) u) = d"
    using Cons.prems(1) by (simp add: store_put_def)
  moreover have "list_all (\<lambda>x. x = Some d) (embedding_dims (store_put ns k v w))"
    using Cons.prems by (simp add: store_put_def embedding_dims_def list_all_iff)
  ultimately show ?case
    using Cons.IH [of "store_put ns k v w"] by (simp add: p store_put_def)
qed

text \<open>
  The optimiser returns, the put that commits its prompt raises: the handler runs and
  commits the fallback. When the put of the handler raises too, nothing is committed.
\<close>

lemma optimize_instructions_put_raises:
  assumes "current_prompt_of (find (at_key [''instructions''] ''email_agent'') (items w)) = Inr p"
    and "opt p [(conversation_messages, feedback)] = Inr r"
    and "faults w = [None, None, Some e1]"
  shows "fst (optimize_instructions opt feedback w) = Inr (p @ fallback_suffix)
       \<and> oplog (snd (optimize_instructions opt feedback w))
           = oplog w @ [Get [''instructions''] ''email_agent'',
                        Put [''instructions''] ''email_agent''
                          [(''prompt'', p @ fallback_suffix)]]
       \<and> map item_value (filter (at_key [''instructions''] ''email_agent'')
            (items (snd (optimize_instructions opt feedback w))))
           = [[(''prompt'', p @ fallback_suffix)]]"
  using assms
  by (simp add: optimize_instructions_def optimize_try_def optimize_except_def
      py_bind_def py_try_def py_return_def store_get_def py_print_def store_put_raising_def
      next_fault_def faults_put filter_put_same oplog_put Let_def)

lemma optimize_instructions_puts_raise:
  assumes "current_prompt_of (find (at_key [''instructions''] ''email_agent'') (items w)) = Inr p"
    and "opt p [(conversation_messages, feedback)] = Inr r"
    and "faults w = [None, None, Some e1, None, Some e2]"
  shows "fst (optimize_instructions opt feedback w) = Inl e2
       \<and> oplog (snd (optimize_instructions opt feedback w))
           = oplog w @ [Get [''instructions''] ''email_agent'']
       \<and> items (snd (optimize_instructions opt feedback w)) = items w"
  using assms
  by (simp add: optimize_instructions_def optimize_try_def optimize_except_def
      py_bind_def py_try_def py_return_def store_get_def py_print_def store_put_raising_def
      next_fault_def faults_put filter_put_same oplog_put Let_def)

section \<open>The claims\<close>

text \<open>
  C1 (as amended). Take a store whose current instruction for the email agent is \<open>p\<close>
  (the prompt stored, or the default when nothing is stored). In a run of the
  optimisation step in which no put and no print raises, the step returns a prompt
  \<open>q\<close>, reads the store once and writes it once, and leaves \<open>q\<close> as the only
  instruction stored under the key: when the optimiser call raises, \<open>q\<close> is \<open>p\<close>
  followed by the fixed text
  \<open>" Always sign 'Best regards, William' and offer Zoom/Google Meet options for meetings."\<close>,
  whatever the feedback is; when it returns, \<open>q\<close> is what \<open>extract_optimized\<close> takes
  from the result. When the optimiser returns and the put that commits its prompt raises,
  the handler commits \<open>p\<close> followed by the same fixed text, once; when the put of the
  handler raises too, the step raises and the store is as it was.
\<close>

theorem optimizer_commits_once_with_fixed_fallback:
  assumes "current_prompt_of (find (at_key [''instructions''] ''email_agent'') (items w)) = Inr p"
  shows "(faults w = [] \<longrightarrow>
          (\<exists>q. fst (optimize_instructions opt feedback w) = Inr q
             \<and> oplog (snd (optimize_instructions opt feedback w))
                 = oplog w @ [Get [''instructions''] ''email_agent'',
                              Put [''instructions''] ''email_agent'' [(''prompt'', q)]]
             \<and> map item_value (filter (at_key [''instructions''] ''email_agent'')
                  (items (snd (optimize_instructions opt feedback w)))) = [[(''prompt'', q)]]
             \<and> (case opt p [(conversation_messages, feedback)] of
                  Inl e \<Rightarrow> q = p @ fallback_suffix
                | Inr r \<Rightarrow> q = extract_optimized p r)))
    \<and> (opt p [(conversation_messages, feedback)] = Inr r
         \<and> faults w = [None, None, Some e1] \<longrightarrow>
          fst (optimize_instructions opt feedback w) = Inr (p @ fallback_suffix)
          \<and> oplog (snd (optimize_instructions opt feedback w))
              = oplog w @ [Get [''instructions''] ''email_agent'',
                           Put [''instructions''] ''email_agent''
                             [(''prompt'', p @ fallback_suffix)]]
          \<and> map item_value (filter (at_key [''instructions''] ''email_agent'')
               (items (snd (optimize_instructions opt feedback w))))
              = [[(''prompt'', p @ fallback_suffix)]])
    \<and> (opt p [(conversation_messages, feedback)] = Inr r
         \<and> faults w = [None, None, Some e1, None, Some e2] \<longrightarrow>
          fst (optimize_instructions opt feedback w) = Inl e2
          \<and> oplog (snd (optimize_instructions opt feedback w))
              = oplog w @ [Get [''instructions''] ''email_agent'']
          \<and> items (snd (optimize_instructions opt feedback w)) = items w)"
proof (intro conjI impI)
  assume f: "faults w = []"
  show "\<exists>q. fst (optimize_instructions opt feedback w) = Inr q
             \<and> oplog (snd (optimize_instructions opt feedback w))
                 = oplog w @ [Get [''instructions''] ''email_agent'',
                              Put [''instructions''] ''email_agent'' [(''prompt'', q)]]
             \<and> map item_value (filter (at_key [''instructions''] ''email_agent'')
                  (items (snd (optimize_instructions opt feedback w)))) = [[(''prompt'', q)]]
             \<and> (case opt p [(conversation_messages, feedback)] of
                  Inl e \<Rightarrow> q = p @ fallback_suffix
                | Inr r \<Rightarrow> q = extract_optimized p r)"
    using optimize_instructions_run [OF assms f, of opt feedback] by auto
next
  assume a: "opt p [(conversation_messages, feedback)] = Inr r
         \<and> faults w = [None, None, Some e1]"
  then show "fst (optimize_instructions opt feedback w) = Inr (p @ fallback_suffix)"
    and "oplog (snd (optimize_instructions opt feedback w))
              = oplog w @ [Get [''instructions''] ''email_agent'',
                           Put [''instructions''] ''email_agent''
                             [(''prompt'', p @ fallback_suffix)]]"
    and "map item_value (filter (at_key [''instructions''] ''email_agent'')
               (items (snd (optimize_instructions opt feedback w))))
              = [[(''prompt'', p @ fallback_suffix)]]"
    using optimize_instructions_put_raises [OF assms, of opt feedback r e1] by simp_all
next
  assume a: "opt p [(conversation_messages, feedback)] = Inr r
         \<and> faults w = [None, None, Some e1, None, Some e2]"
  then show "fst (optimize_instructions opt feedback w) = Inl e2"
    and "oplog (snd (optimize_instructions opt feedback w))
              = oplog w @ [Get [''instructions''] ''email_agent'']"
    and "items (snd (optimize_instructions opt feedback w)) = items w"
    using optimize_instructions_puts_raise [OF assms, of opt feedback r e1 e2] by simp_all
qed

theorem optimizer_commits_once_with_fixed_fallback_witness:
  "current_prompt_of (find (at_key [''instructions''] ''email_agent'')
       (items (instruction_stored ''Write professional emails.'' fresh_world)))
     = Inr ''Write professional emails.''
   \<and> faults (instruction_stored ''Write professional emails.'' fresh_world) = []
   \<and> fst (optimize_instructions failing_optimizer ''Always sign as William''
          (instruction_stored ''Write professional emails.'' fresh_world))
     = Inr (''Write professional emails.'' @ fallback_suffix)
   \<and> faults put_fails_once_world = [None, None, Some embedding_unavailable]
   \<and> fst (optimize_instructions returning_optimizer ''Always sign as William''
          put_fails_once_world)
     = Inr (''Write professional emails.'' @ fallback_suffix)
   \<and> faults unavailable_world
     = [None, None, Some embedding_unavailable, None, Some embedding_unavailable]
   \<and> fst (optimize_instructions returning_optimizer ''Always sign as William''
          unavailable_world)
     = Inl embedding_unavailable"
proof -
  have cur: "current_prompt_of (find (at_key [''instructions''] ''email_agent'')
       (items (instruction_stored ''Write professional emails.'' fresh_world)))
     = Inr ''Write professional emails.''"
    by (simp add: find_put_same current_prompt_of_def)
  have cur2: "current_prompt_of (find (at_key [''instructions''] ''email_agent'')
       (items put_fails_once_world)) = Inr ''Write professional emails.''"
    by (simp add: put_fails_once_world_def find_put_same current_prompt_of_def)
  have f: "faults (instruction_stored ''Write professional emails.'' fresh_world) = []"
    by (simp add: faults_put fresh_world_def)
  have f2: "faults put_fails_once_world = [None, None, Some embedding_unavailable]"
    by (simp add: put_fails_once_world_def)
  have cur3: "current_prompt_of (find (at_key [''instructions''] ''email_agent'')
       (items unavailable_world)) = Inr ''Write professional emails.''"
    by (simp add: unavailable_world_def find_put_same current_prompt_of_def)
  have f3: "faults unavailable_world
     = [None, None, Some embedding_unavailable, None, Some embedding_unavailable]"
    by (simp add: unavailable_world_def)
  show ?thesis
    using cur f f2 f3
      optimizer_commits_once_with_fixed_fallback
        [OF cur, of failing_optimizer "''Always sign as William''"]
      optimizer_commits_once_with_fixed_fallback
        [OF cur2, of returning_optimizer "''Always sign as William''"
           "ObjWithContent ''Write formal emails.''" embedding_unavailable]
      optimizer_commits_once_with_fixed_fallback
        [OF cur3, of returning_optimizer "''Always sign as William''"
           "ObjWithContent ''Write formal emails.''" embedding_unavailable
           embedding_unavailable]
    by (auto simp add: failing_optimizer_def returning_optimizer_def)
qed

text \<open>
  C1 as stated fails. With the current instruction \<open>"Write professional emails."\<close>, the
  feedback \<open>"Always sign as William"\<close> and an optimiser that raises, the instruction
  committed is not \<open>"Write professional emails. Always sign as William"\<close>. And with an
  optimiser that returns while the embedding provider is unavailable for both puts, the
  step raises and commits nothing: the store holds what it held.
\<close>

theorem fallback_is_not_feedback_concatenation:
  "fst (optimize_instructions failing_optimizer ''Always sign as William''
          (instruction_stored ''Write professional emails.'' fresh_world))
     = Inr ''Write professional emails. Always sign 'Best regards, William' and offer Zoom/Google Meet options for meetings.''
   \<and> fst (optimize_instructions failing_optimizer ''Always sign as William''
          (instruction_stored ''Write professional emails.'' fresh_world))
     \<noteq> Inr ''Write professional emails. Always sign as William''
   \<and> fst (optimize_instructions returning_optimizer ''Always sign as William''
          unavailable_world)
     = Inl embedding_unavailable
   \<and> oplog (snd (optimize_instructions returning_optimizer ''Always sign as William''
          unavailable_world))
     = [Put [''instructions''] ''email_agent'' [(''prompt'', ''Write professional emails.'')],
        Get [''instructions''] ''email_agent'']
   \<and> map item_value (items (snd (optimize_instructions returning_optimizer
          ''Always sign as William'' unavailable_world)))
     = [[(''prompt'', ''Write professional emails.'')]]"
proof -
  have a: "fst (optimize_instructions failing_optimizer ''Always sign as William''
          (instruction_stored ''Write professional emails.'' fresh_world))
     = Inr ''Write professional emails. Always sign 'Best regards, William' and offer Zoom/Google Meet options for meetings.''"
    by (simp add: optimize_instructions_def optimize_try_def optimize_except_def
        py_bind_def py_try_def py_return_def store_get_def py_print_def store_put_raising_def
        next_fault_def faults_put find_put_same current_prompt_of_def
        failing_optimizer_def fallback_suffix_def fresh_world_def Let_def)
  have cur: "current_prompt_of (find (at_key [''instructions''] ''email_agent'')
       (items unavailable_world)) = Inr ''Write professional emails.''"
    by (simp add: unavailable_world_def find_put_same current_prompt_of_def)
  have r: "returning_optimizer ''Write professional emails.''
             [(conversation_messages, ''Always sign as William'')]
           = Inr (ObjWithContent ''Write formal emails.'')"
    by (simp add: returning_optimizer_def)
  have f: "faults unavailable_world
             = [None, None, Some embedding_unavailable, None, Some embedding_unavailable]"
    by (simp add: unavailable_world_def)
  have b: "fst (optimize_instructions returning_optimizer ''Always sign as William''
                  unavailable_world) = Inl embedding_unavailable
       \<and> oplog (snd (optimize_instructions returning_optimizer ''Always sign as William''
                  unavailable_world))
           = oplog unavailable_world @ [Get [''instructions''] ''email_agent'']
       \<and> items (snd (optimize_instructions returning_optimizer ''Always sign as William''
                  unavailable_world)) = items unavailable_world"
    using cur r f by (rule optimize_instructions_puts_raise)
  have o: "oplog unavailable_world
       = [Put [''instructions''] ''email_agent'' [(''prompt'', ''Write professional emails.'')]]"
    by (simp add: unavailable_world_def oplog_put fresh_world_def)
  have i: "map item_value (items unavailable_world)
       = [[(''prompt'', ''Write professional emails.'')]]"
    by (simp add: unavailable_world_def store_put_def fresh_world_def)
  show ?thesis using a b o i by simp
qed

text \<open>
  C2 (as amended). Every store operation of \<open>demonstrate_procedural_memory\<close> and of
  \<open>demonstrate_behavior_evolution\<close> is on the namespace \<open>("instructions",)\<close>, with the
  role id \<open>"email_agent"\<close> as the key; the namespace \<open>("instructions", "email_agent")\<close>
  is the one bound to the two memory tools that \<open>setup_procedural_agent\<close> builds.
\<close>

theorem instruction_is_kept_under_instructions_namespace:
  "(\<exists>ops. oplog (snd (demonstrate_procedural_memory opt environ w)) = oplog w @ ops
          \<and> list_all on_instructions ops)
   \<and> (\<exists>ops. oplog (snd (demonstrate_behavior_evolution environ w)) = oplog w @ ops
          \<and> list_all on_instructions ops)
   \<and> map tool_namespace (snd (fst (setup_procedural_agent environ w)))
       = [[''instructions'', ''email_agent''], [''instructions'', ''email_agent'']]"
proof -
  have a: "\<exists>ops. oplog (snd (demonstrate_procedural_memory opt environ w)) = oplog w @ ops
          \<and> list_all on_instructions ops"
    by (rule demonstrate_procedural_memory_grows)
  obtain ops where
    "oplog (snd (demonstrate_behavior_evolution environ w))
       = oplog (instruction_stored ''Write professional emails.''
                  (snd (setup_procedural_agent environ w))) @ ops"
    and "list_all on_instructions ops"
    using evolve_oplog [of feedback_iterations "''Write professional emails.''"
        "instruction_stored ''Write professional emails.''
           (snd (setup_procedural_agent environ w))"]
    by (auto simp add: demonstrate_behavior_evolution_def case_prod_unfold)
  then have b: "\<exists>ops. oplog (snd (demonstrate_behavior_evolution environ w)) = oplog w @ ops
          \<and> list_all on_instructions ops"
    by (simp add: oplog_put setup_procedural_agent_world on_instructions_ops)
  have c: "map tool_namespace (snd (fst (setup_procedural_agent environ w)))
       = [[''instructions'', ''email_agent''], [''instructions'', ''email_agent'']]"
    by (simp add: setup_procedural_agent_def Let_def)
  show ?thesis using a b c by blast
qed

text \<open>
  C2 as stated fails: in a run of \<open>demonstrate_procedural_memory\<close> from an empty
  world, no store operation at all is on the namespace \<open>("instructions", "email_agent")\<close>.
\<close>

theorem no_operation_on_role_namespace:
  "[''instructions'', ''email_agent'']
     \<notin> set (map op_namespace
          (oplog (snd (demonstrate_procedural_memory failing_optimizer [] fresh_world))))"
proof -
  obtain q where
    "oplog (snd (demonstrate_procedural_memory failing_optimizer [] fresh_world))
       = oplog fresh_world @
         [Put [''instructions''] ''email_agent'' [(''prompt'', ''Write professional emails.'')],
          Get [''instructions''] ''email_agent'',
          Get [''instructions''] ''email_agent'',
          Put [''instructions''] ''email_agent'' [(''prompt'', q)],
          Get [''instructions''] ''email_agent'',
          Get [''instructions''] ''email_agent'',
          Search [''instructions'']]"
    using demonstrate_procedural_memory_trace [of fresh_world failing_optimizer "[]"]
    by (auto simp add: fresh_world_def)
  then show ?thesis by (simp add: fresh_world_def)
qed

text \<open>
  C3 (as amended). On an empty store the lookup of the instruction yields \<open>None\<close>;
  the prompt function then puts the default \<open>"Write professional emails."\<close> into the
  prompt it returns and writes nothing, so a later lookup yields \<open>None\<close> again. The
  default is in the store once it has been put there, as the demonstrations do first.
\<close>

theorem empty_store_lookup_and_default:
  assumes "items w = []" and "map_of state ''messages'' = Some ms"
  shows "fst (store_get [''instructions''] ''email_agent'' w) = Inr None
    \<and> fst (email_prompt state w) = Inr (sys_prompt ''Write professional emails.'' # ms)
    \<and> items (snd (email_prompt state w)) = []
    \<and> fst (store_get [''instructions''] ''email_agent'' (snd (email_prompt state w))) = Inr None
    \<and> map_option item_value
         (find (at_key [''instructions''] ''email_agent'')
            (items (instruction_stored ''Write professional emails.'' w)))
        = Some [(''prompt'', ''Write professional emails.'')]"
  using assms
  by (simp add: store_get_def email_prompt_def email_prompt_on_def email_prompt_try_def
      with_messages_def default_prompt_def find_put_same)

theorem empty_store_lookup_and_default_witness:
  "items fresh_world = []
   \<and> map_of (user_says ''hello'') ''messages'' = Some [\<lparr>role = ''user'', content = ''hello''\<rparr>]
   \<and> fst (email_prompt (user_says ''hello'') fresh_world)
       = Inr [sys_prompt ''Write professional emails.'', \<lparr>role = ''user'', content = ''hello''\<rparr>]"
  using empty_store_lookup_and_default
    [of fresh_world "user_says ''hello''" "[\<lparr>role = ''user'', content = ''hello''\<rparr>]"]
  by (simp add: fresh_world_def user_says_def)

text \<open>
  C3 as stated fails: after the prompt function has met the empty store and used the
  default, the lookup of the instruction still yields \<open>None\<close>, under the namespace the
  code uses and under the one the claim names.
\<close>

theorem default_is_not_seeded:
  "fst (email_prompt (user_says ''hello'') fresh_world)
     = Inr [\<lparr>role = ''system'', content = ''Instructions: Write professional emails.''\<rparr>,
            \<lparr>role = ''user'', content = ''hello''\<rparr>]
   \<and> fst (store_get [''instructions''] ''email_agent''
            (snd (email_prompt (user_says ''hello'') fresh_world))) = Inr None
   \<and> fst (store_get [''instructions'', ''email_agent''] ''email_agent''
            (snd (email_prompt (user_says ''hello'') fresh_world))) = Inr None"
  by (simp add: store_get_def email_prompt_def email_prompt_on_def email_prompt_try_def
      with_messages_def default_prompt_def sys_prompt_def user_says_def fresh_world_def)

text \<open>
  C4 (as amended). When the lookup of the prompt function raises an error, the function
  returns what it returns when nothing is stored, the prompt built from the default
  instruction, and the error shows only as the line
  \<open>"Error retrieving instructions: ..."\<close> added to the output; nothing else changes.
\<close>

theorem lookup_error_becomes_default:
  "fst (email_prompt_on (Inl e) state w) = fst (email_prompt_on (Inr None) state w)
   \<and> snd (email_prompt_on (Inl e) state w)
       = w\<lparr>stdout := stdout w @ [''Error retrieving instructions: '' @ str_of_error e]\<rparr>"
  by (simp add: email_prompt_on_def email_prompt_try_def split: sum.splits)

text \<open>
  C4 as stated fails: a lookup that raises \<open>RuntimeError("store unavailable")\<close> is
  answered with the default prompt, not with the error.
\<close>

theorem lookup_error_is_not_propagated:
  "fst (email_prompt_on (Inl (RuntimeError ''store unavailable'')) (user_says ''hello'')
          fresh_world)
     = Inr [\<lparr>role = ''system'', content = ''Instructions: Write professional emails.''\<rparr>,
            \<lparr>role = ''user'', content = ''hello''\<rparr>]"
  by (simp add: email_prompt_on_def email_prompt_try_def
      with_messages_def default_prompt_def sys_prompt_def user_says_def)

text \<open>
  C5. After two successive puts to the same namespace and key, the store holds exactly
  one record there, with the value of the second put, and a lookup returns it. So it is
  for the loop of \<open>demonstrate_behavior_evolution\<close>: at its end the one instruction
  stored is the last prompt committed.
\<close>

theorem second_commit_replaces_first:
  "filter (at_key ns k) (items (store_put ns k v2 (store_put ns k v1 w)))
     = [\<lparr>item_namespace = ns, item_key = k, item_value = v2,
         item_embedding = Some (provider w v2)\<rparr>]
   \<and> fst (store_get ns k (store_put ns k v2 (store_put ns k v1 w)))
     = Inr (Some \<lparr>item_namespace = ns, item_key = k, item_value = v2,
         item_embedding = Some (provider w v2)\<rparr>)
   \<and> map item_value (filter (at_key [''instructions''] ''email_agent'')
        (items (snd (demonstrate_behavior_evolution environ w))))
     = [[(''prompt'', fst (demonstrate_behavior_evolution environ w))]]"
proof -
  have p: "provider (store_put ns k v1 w) = provider w"
    by (simp add: store_put_def)
  have a: "filter (at_key ns k) (items (store_put ns k v2 (store_put ns k v1 w)))
     = [\<lparr>item_namespace = ns, item_key = k, item_value = v2,
         item_embedding = Some (provider w v2)\<rparr>]"
    by (simp add: filter_put_same p)
  have b: "fst (store_get ns k (store_put ns k v2 (store_put ns k v1 w)))
     = Inr (Some \<lparr>item_namespace = ns, item_key = k, item_value = v2,
         item_embedding = Some (provider w v2)\<rparr>)"
    by (simp add: store_get_def find_put_same p)
  have c: "map item_value (filter (at_key [''instructions''] ''email_agent'')
        (items (snd (demonstrate_behavior_evolution environ w))))
     = [[(''prompt'', fst (demonstrate_behavior_evolution environ w))]]"
    using evolve_stored [of feedback_iterations "''Write professional emails.''"
        "snd (setup_procedural_agent environ w)"]
    by (simp add: demonstrate_behavior_evolution_def case_prod_unfold)
  show ?thesis using a b c by blast
qed

text \<open>
  C6. For two different namespaces \<open>N1\<close> and \<open>N2\<close>, one of which may be a prefix of
  the other: a put under \<open>N1\<close> changes neither what a search of \<open>N2\<close> returns nor
  what a lookup in \<open>N2\<close> returns, and no record of namespace \<open>N1\<close> is ever returned
  by a search or a lookup scoped to \<open>N2\<close>.
\<close>

theorem namespaces_are_isolated:
  assumes "N1 \<noteq> N2"
  shows "fst (store_search N2 (store_put N1 k v w)) = fst (store_search N2 w)
    \<and> fst (store_get N2 k' (store_put N1 k v w)) = fst (store_get N2 k' w)
    \<and> (item_namespace it = N1 \<longrightarrow>
          it \<notin> set (fst (store_search N2 w)) \<and> fst (store_get N2 k' w) \<noteq> Inr (Some it))"
proof -
  have a: "fst (store_search N2 (store_put N1 k v w)) = fst (store_search N2 w)"
    using assms
    by (auto simp add: store_search_def store_put_def at_key_def intro: filter_cong)
  have "find (at_key N2 k') (filter (\<lambda>it. \<not> at_key N1 k it) (items w))
          = find (at_key N2 k') (items w)"
    using assms by (rule find_other_namespace)
  then have b: "fst (store_get N2 k' (store_put N1 k v w)) = fst (store_get N2 k' w)"
    using assms by (simp add: store_get_def store_put_def at_key_def)
  have c: "item_namespace it = N1 \<longrightarrow>
          it \<notin> set (fst (store_search N2 w)) \<and> fst (store_get N2 k' w) \<noteq> Inr (Some it)"
    using assms by (auto simp add: store_search_def store_get_def at_key_def find_Some_iff)
  show ?thesis using a b c by blast
qed

theorem namespaces_are_isolated_witness:
  "[''instructions''] \<noteq> [''instructions'', ''email_agent'']
   \<and> fst (store_search [''instructions'', ''email_agent'']
          (instruction_stored ''Write professional emails.'' fresh_world)) = []
   \<and> fst (store_get [''instructions'', ''email_agent''] ''email_agent''
          (instruction_stored ''Write professional emails.'' fresh_world)) = Inr None"
  using namespaces_are_isolated
    [of "[''instructions'']" "[''instructions'', ''email_agent'']" "''email_agent''"
      "[(''prompt'', ''Write professional emails.'')]" fresh_world "''email_agent''"]
  by (simp add: store_search_def store_get_def fresh_world_def)

text \<open>
  C7. When \<open>OPENAI_API_KEY\<close> is not set (or is empty) once the \<open>.env\<close> file has been
  loaded, the entry point of a script exits with status 1 before its demonstrations
  run, whatever they are: no store operation is performed and the store is untouched.
  So it is for the entry point of \<open>procedural_memory.py\<close>.
\<close>

theorem missing_credential_exits_before_any_operation:
  assumes "falsy (os_getenv (load_dotenv dotenv environ0) ''OPENAI_API_KEY'')"
  shows "fst (script_main body dotenv environ0 w) = Exited 1
    \<and> oplog (snd (script_main body dotenv environ0 w)) = oplog w
    \<and> items (snd (script_main body dotenv environ0 w)) = items w
    \<and> fst (procedural_main opt dotenv environ0 w) = Exited 1
    \<and> oplog (snd (procedural_main opt dotenv environ0 w)) = oplog w
    \<and> items (snd (procedural_main opt dotenv environ0 w)) = items w"
  using assms by (simp add: script_main_def procedural_main_def Let_def)

theorem missing_credential_exits_before_any_operation_witness:
  "falsy (os_getenv (load_dotenv [] []) ''OPENAI_API_KEY'')
   \<and> fst (procedural_main failing_optimizer [] [] fresh_world) = Exited 1
   \<and> oplog (snd (procedural_main failing_optimizer [] [] fresh_world)) = []"
  using missing_credential_exits_before_any_operation
    [of "[]" "[]" "procedural_body failing_optimizer" fresh_world failing_optimizer]
  by (simp add: falsy_def os_getenv_def load_dotenv_def fresh_world_def)

text \<open>
  C8. Each of the four setup functions creates its store with an index of 1536
  dimensions. A store created with dimension \<open>d\<close>, whose embedding provider returns
  vectors of \<open>d\<close> components, keeps that dimension through any sequence of puts, and
  every record it holds has an embedding of exactly \<open>d\<close> components.
\<close>

theorem embedding_dimension_is_fixed:
  assumes "\<forall>v. length (provider w v) = d"
  shows "snd (setup_agent environ w) = InMemoryStore 1536 ''openai:text-embedding-3-small'' w
    \<and> snd (setup_semantic_agent environ w)
        = InMemoryStore 1536 ''openai:text-embedding-3-small'' w
    \<and> snd (setup_episodic_agent environ w)
        = InMemoryStore 1536 ''openai:text-embedding-3-small'' w
    \<and> snd (setup_procedural_agent environ w)
        = InMemoryStore 1536 ''openai:text-embedding-3-small'' w
    \<and> index_dims (InMemoryStore 1536 e w) = 1536
    \<and> index_dims (store_puts ps (InMemoryStore d e w)) = d
    \<and> list_all (\<lambda>x. x = Some d) (embedding_dims (store_puts ps (InMemoryStore d e w)))"
proof -
  have "\<forall>v. length (provider (InMemoryStore d e w) v) = d"
    using assms by (simp add: InMemoryStore_def)
  moreover have "list_all (\<lambda>x. x = Some d) (embedding_dims (InMemoryStore d e w))"
    by (simp add: InMemoryStore_def embedding_dims_def)
  ultimately have
    "list_all (\<lambda>x. x = Some d) (embedding_dims (store_puts ps (InMemoryStore d e w)))
     \<and> index_dims (store_puts ps (InMemoryStore d e w)) = index_dims (InMemoryStore d e w)"
    by (rule store_puts_dims)
  then show ?thesis
    by (simp add: setup_agent_def setup_semantic_agent_def setup_episodic_agent_def
        setup_procedural_agent_def Let_def InMemoryStore_def)
qed

theorem embedding_dimension_is_fixed_witness:
  "(\<forall>v. length (provider fresh_world v) = 1536)
   \<and> embedding_dims (store_puts
        [([''instructions''], ''email_agent'', [(''prompt'', ''Write professional emails.'')]),
         ([''user_facts'', ''u1''], ''k1'', [(''text'', ''vegetarian'')])]
        (InMemoryStore 1536 ''openai:text-embedding-3-small'' fresh_world))
      = [Some 1536, Some 1536]"
  using embedding_dimension_is_fixed
    [of fresh_world 1536 "[]" "''openai:text-embedding-3-small''"
      "[([''instructions''], ''email_agent'', [(''prompt'', ''Write professional emails.'')]),
         ([''user_facts'', ''u1''], ''k1'', [(''text'', ''vegetarian'')])]"]
  by (simp add: fresh_world_def zero_provider_def embedding_dims_def store_put_def
      InMemoryStore_def at_key_def)



text \<open>
  C10. Two calls of the email tool with the same recipient and the same subject return
  the same confirmation string, whatever the two bodies are.
\<close>

theorem draft_email_ignores_body:
  "draft_email to subject body1 = draft_email to subject body2"
  by (simp add: draft_email_def)

end
